theory Spec2Isabelle
  imports Complex_Main "HOL-Library.Char_ord"
begin

section \<open>Data model\<close>

text \<open>
  The reconciliation engine of \<^verbatim>\<open>src/services/reconciliation.service.ts\<close>.
  JavaScript numbers are idealised as reals (amounts, confidences): the arithmetic below
  is exact, where the code rounds every operation to an IEEE-754 double. The theorems
  of this theory therefore state only what does not depend on the rounding: which
  candidate a selector keeps, how the status follows from the stored confidence and
  amount difference, and which outcomes a run produces, counts and saves. A timestamp is
  the integer \<^verbatim>\<open>new Date(x.createdAt).getTime()\<close>, milliseconds since the epoch. An
  optional field is an \<open>option\<close>; an optional string passes a JavaScript condition when
  it is present and not empty.
\<close>

datatype ReconciliationStatusType =
  MATCHED | PARTIAL_MATCH | UNMATCHED | DISCREPANCY | UNDER_REVIEW | RESOLVED

record ShopifyOrder =
  so_id :: string
  shopifyOrderId :: string
  shopifyOrderNumber :: string
  so_email :: "string option"
  totalPrice :: real
  so_createdAt :: int

record RazorpayPayment =
  rp_id :: string
  rp_email :: "string option"
  amount :: real
  rp_createdAt :: int

record EasyecomOrder =
  eo_id :: string
  marketplaceOrderId :: "string option"
  totalAmount :: real
  eo_createdAt :: int

text \<open>
  The note of an outcome. The two fixed texts are kept as they are; the two templates
  that interpolate \<^verbatim>\<open>amountDifference.toFixed(2)\<close> keep the number they render.
\<close>

datatype outcome_note =
  Literal string
  | PartialMatchWith real
  | SignificantAmountDifference real

record MatchResult =
  mr_shopifyOrderId :: "string option"
  razorpayPaymentId :: "string option"
  easyecomOrderId :: "string option"
  matchConfidence :: real
  status :: ReconciliationStatusType
  amountDifference :: "real option"
  discrepancyNotes :: "outcome_note option"

section \<open>Pairwise scoring\<close>

text \<open>
  \<^verbatim>\<open>String.prototype.toLowerCase\<close>, on the ASCII letters only: every other character
  is left as it is, where JavaScript also lowers the letters beyond ASCII.
\<close>

definition lowerChar :: "char \<Rightarrow> char" where
  "lowerChar c =
     (if CHR ''A'' \<le> c \<and> c \<le> CHR ''Z'' then char_of (of_char c + (32::nat)) else c)"

definition toLowerCase :: "string \<Rightarrow> string" where
  "toLowerCase s = map lowerChar s"

text \<open>
  \<^verbatim>\<open>shopifyOrder.email && payment.email &&
  shopifyOrder.email.toLowerCase() === payment.email.toLowerCase()\<close>
\<close>

fun emailsMatch :: "string option \<Rightarrow> string option \<Rightarrow> bool" where
  "emailsMatch (Some a) (Some b) = (a \<noteq> [] \<and> b \<noteq> [] \<and> toLowerCase a = toLowerCase b)"
| "emailsMatch _ _ = False"

text \<open>
  \<^verbatim>\<open>easyecomOrder.marketplaceOrderId &&
  (easyecomOrder.marketplaceOrderId === shopifyOrder.shopifyOrderId ||
   easyecomOrder.marketplaceOrderId === shopifyOrder.shopifyOrderNumber)\<close>
\<close>

fun marketplaceIdMatches :: "string option \<Rightarrow> string \<Rightarrow> string \<Rightarrow> bool" where
  "marketplaceIdMatches None oid onum = False"
| "marketplaceIdMatches (Some m) oid onum = (m \<noteq> [] \<and> (m = oid \<or> m = onum))"

text \<open>\<^verbatim>\<open>timeDiff / (1000 * 60 * 60)\<close> with \<^verbatim>\<open>timeDiff = Math.abs(t1 - t2)\<close>.\<close>

definition hoursDiff :: "int \<Rightarrow> int \<Rightarrow> real" where
  "hoursDiff t1 t2 = real_of_int \<bar>t1 - t2\<bar> / (1000 * 60 * 60)"

text \<open>The body of the loop of \<^verbatim>\<open>matchRazorpayPayment\<close>: the confidence of one payment.\<close>

definition razorpayConfidence :: "ShopifyOrder \<Rightarrow> RazorpayPayment \<Rightarrow> real" where
  "razorpayConfidence shopifyOrder payment =
     (let confidence0 = 0;
          confidence1 = (if emailsMatch (so_email shopifyOrder) (rp_email payment)
                         then confidence0 + 40 else confidence0);
          amountDiff = \<bar>totalPrice shopifyOrder - amount payment\<bar>;
          amountTolerance = totalPrice shopifyOrder * 0.01;
          confidence2 = (if amountDiff \<le> amountTolerance
                         then confidence1 + 40 else confidence1);
          h = hoursDiff (so_createdAt shopifyOrder) (rp_createdAt payment);
          confidence3 = (if h \<le> 24 then confidence2 + 20 * (1 - h / 24) else confidence2)
      in confidence3)"

text \<open>The body of the loop of \<^verbatim>\<open>matchEasyecomOrder\<close>: the confidence of one order.\<close>

definition easyecomConfidence :: "ShopifyOrder \<Rightarrow> EasyecomOrder \<Rightarrow> real" where
  "easyecomConfidence shopifyOrder easyecomOrder =
     (let confidence0 = 0;
          confidence1 = (if marketplaceIdMatches (marketplaceOrderId easyecomOrder)
                              (shopifyOrderId shopifyOrder) (shopifyOrderNumber shopifyOrder)
                         then confidence0 + 60 else confidence0);
          amountDiff = \<bar>totalPrice shopifyOrder - totalAmount easyecomOrder\<bar>;
          amountTolerance = totalPrice shopifyOrder * 0.01;
          confidence2 = (if amountDiff \<le> amountTolerance
                         then confidence1 + 30 else confidence1);
          h = hoursDiff (so_createdAt shopifyOrder) (eo_createdAt easyecomOrder);
          confidence3 = (if h \<le> 48 then confidence2 + 10 * (1 - h / 48) else confidence2)
      in confidence3)"

section \<open>Best-match selection\<close>

text \<open>
  The \<^verbatim>\<open>for\<close> loop of each selector, with the loop variables \<^verbatim>\<open>bestMatch\<close> and
  \<^verbatim>\<open>bestConfidence\<close> as arguments.
\<close>

fun matchRazorpayLoop ::
  "ShopifyOrder \<Rightarrow> RazorpayPayment list \<Rightarrow> RazorpayPayment option \<Rightarrow> real
     \<Rightarrow> RazorpayPayment option \<times> real" where
  "matchRazorpayLoop shopifyOrder [] bestMatch bestConfidence = (bestMatch, bestConfidence)"
| "matchRazorpayLoop shopifyOrder (payment # rest) bestMatch bestConfidence =
     (if razorpayConfidence shopifyOrder payment > bestConfidence
      then matchRazorpayLoop shopifyOrder rest (Some payment)
             (razorpayConfidence shopifyOrder payment)
      else matchRazorpayLoop shopifyOrder rest bestMatch bestConfidence)"

definition matchRazorpayPayment ::
  "ShopifyOrder \<Rightarrow> RazorpayPayment list \<Rightarrow> RazorpayPayment option \<times> real" where
  "matchRazorpayPayment shopifyOrder razorpayPayments =
     matchRazorpayLoop shopifyOrder razorpayPayments None 0"

fun matchEasyecomLoop ::
  "ShopifyOrder \<Rightarrow> EasyecomOrder list \<Rightarrow> EasyecomOrder option \<Rightarrow> real
     \<Rightarrow> EasyecomOrder option \<times> real" where
  "matchEasyecomLoop shopifyOrder [] bestMatch bestConfidence = (bestMatch, bestConfidence)"
| "matchEasyecomLoop shopifyOrder (easyecomOrder # rest) bestMatch bestConfidence =
     (if easyecomConfidence shopifyOrder easyecomOrder > bestConfidence
      then matchEasyecomLoop shopifyOrder rest (Some easyecomOrder)
             (easyecomConfidence shopifyOrder easyecomOrder)
      else matchEasyecomLoop shopifyOrder rest bestMatch bestConfidence)"

definition matchEasyecomOrder ::
  "ShopifyOrder \<Rightarrow> EasyecomOrder list \<Rightarrow> EasyecomOrder option \<times> real" where
  "matchEasyecomOrder shopifyOrder easyecomOrders =
     matchEasyecomLoop shopifyOrder easyecomOrders None 0"

section \<open>Classification\<close>

text \<open>
  \<^verbatim>\<open>Math.max(...amounts)\<close> and \<^verbatim>\<open>Math.min(...amounts)\<close>; the list \<^verbatim>\<open>amounts\<close> always
  starts with \<^verbatim>\<open>shopifyOrder.totalPrice\<close>, so it is given as its head and its rest.
\<close>

definition Math_max :: "real \<Rightarrow> real list \<Rightarrow> real" where
  "Math_max x xs = fold max xs x"

definition Math_min :: "real \<Rightarrow> real list \<Rightarrow> real" where
  "Math_min x xs = fold min xs x"

text \<open>The status cascade at the end of \<^verbatim>\<open>findMatches\<close>, with the note it sets.\<close>

definition determineStatus :: "real \<Rightarrow> real \<Rightarrow> ReconciliationStatusType \<times> outcome_note option" where
  "determineStatus confidence difference =
     (if confidence \<ge> 80 \<and> difference < 1 then (MATCHED, None)
      else if confidence \<ge> 50 \<and> difference < 10
        then (PARTIAL_MATCH, Some (PartialMatchWith difference))
      else if difference \<ge> 10
        then (DISCREPANCY, Some (SignificantAmountDifference difference))
      else (UNMATCHED, Some (Literal ''Could not find confident matches'')))"

definition findMatches ::
  "ShopifyOrder \<Rightarrow> RazorpayPayment list \<Rightarrow> EasyecomOrder list \<Rightarrow> MatchResult" where
  "findMatches shopifyOrder razorpayPayments easyecomOrders =
     (let razorpayMatch = matchRazorpayPayment shopifyOrder razorpayPayments;
          easyecomMatch = matchEasyecomOrder shopifyOrder easyecomOrders;
          confidence1 = (case fst razorpayMatch of
                           Some p \<Rightarrow> 0 + snd razorpayMatch | None \<Rightarrow> 0);
          confidence2 = (case fst easyecomMatch of
                           Some e \<Rightarrow> confidence1 + snd easyecomMatch | None \<Rightarrow> confidence1);
          matchCount = (case fst razorpayMatch of Some p \<Rightarrow> 1 | None \<Rightarrow> 0)
                     + (case fst easyecomMatch of Some e \<Rightarrow> (1::nat) | None \<Rightarrow> 0);
          confidence = (if matchCount > 0 then confidence2 / real matchCount
                        else confidence2);
          pushed = (case fst razorpayMatch of Some p \<Rightarrow> [amount p] | None \<Rightarrow> [])
                 @ (case fst easyecomMatch of Some e \<Rightarrow> [totalAmount e] | None \<Rightarrow> []);
          maxAmount = Math_max (totalPrice shopifyOrder) pushed;
          minAmount = Math_min (totalPrice shopifyOrder) pushed;
          difference = maxAmount - minAmount;
          verdict = determineStatus confidence difference
      in \<lparr> mr_shopifyOrderId = Some (so_id shopifyOrder),
           razorpayPaymentId = map_option rp_id (fst razorpayMatch),
           easyecomOrderId = map_option eo_id (fst easyecomMatch),
           matchConfidence = confidence,
           status = fst verdict,
           amountDifference = Some difference,
           discrepancyNotes = snd verdict \<rparr>)"

section \<open>Run aggregation\<close>

text \<open>
  Lines 56 to 98 of \<^verbatim>\<open>reconcile\<close>: the loop over the Shopify orders, then the loop
  over the payments and the loop over the Easyecom orders, which add the records no
  outcome refers to. The loop variables
  \<^verbatim>\<open>matches\<close>, \<^verbatim>\<open>matchedCount\<close> and \<^verbatim>\<open>unmatchedCount\<close> are arguments.
\<close>

fun primaryLoop ::
  "ShopifyOrder list \<Rightarrow> RazorpayPayment list \<Rightarrow> EasyecomOrder list
     \<Rightarrow> MatchResult list \<Rightarrow> nat \<Rightarrow> nat \<Rightarrow> MatchResult list \<times> nat \<times> nat" where
  "primaryLoop [] razorpayPayments easyecomOrders matches matchedCount unmatchedCount =
     (matches, matchedCount, unmatchedCount)"
| "primaryLoop (shopifyOrder # rest) razorpayPayments easyecomOrders
       matches matchedCount unmatchedCount =
     (if status (findMatches shopifyOrder razorpayPayments easyecomOrders) = MATCHED
      then primaryLoop rest razorpayPayments easyecomOrders
             (matches @ [findMatches shopifyOrder razorpayPayments easyecomOrders])
             (matchedCount + 1) unmatchedCount
      else primaryLoop rest razorpayPayments easyecomOrders
             (matches @ [findMatches shopifyOrder razorpayPayments easyecomOrders])
             matchedCount (unmatchedCount + 1))"

text \<open>\<^verbatim>\<open>.filter(Boolean)\<close> on a list of optional ids: drops the absent and the empty ones.\<close>

fun filterBoolean :: "string option list \<Rightarrow> string list" where
  "filterBoolean [] = []"
| "filterBoolean (None # xs) = filterBoolean xs"
| "filterBoolean (Some s # xs) = (if s \<noteq> [] then s # filterBoolean xs else filterBoolean xs)"

definition razorpayOrphan :: "RazorpayPayment \<Rightarrow> MatchResult" where
  "razorpayOrphan payment =
     \<lparr> mr_shopifyOrderId = None,
       razorpayPaymentId = Some (rp_id payment),
       easyecomOrderId = None,
       matchConfidence = 0,
       status = UNMATCHED,
       amountDifference = None,
       discrepancyNotes = Some (Literal ''No matching Shopify order found'') \<rparr>"

definition easyecomOrphan :: "EasyecomOrder \<Rightarrow> MatchResult" where
  "easyecomOrphan order =
     \<lparr> mr_shopifyOrderId = None,
       razorpayPaymentId = None,
       easyecomOrderId = Some (eo_id order),
       matchConfidence = 0,
       status = UNMATCHED,
       amountDifference = None,
       discrepancyNotes = Some (Literal ''No matching Shopify order found'') \<rparr>"

fun razorpayOrphanLoop ::
  "string set \<Rightarrow> RazorpayPayment list \<Rightarrow> MatchResult list \<Rightarrow> nat
     \<Rightarrow> MatchResult list \<times> nat" where
  "razorpayOrphanLoop matchedRazorpayIds [] matches unmatchedCount =
     (matches, unmatchedCount)"
| "razorpayOrphanLoop matchedRazorpayIds (payment # rest) matches unmatchedCount =
     (if rp_id payment \<notin> matchedRazorpayIds
      then razorpayOrphanLoop matchedRazorpayIds rest
             (matches @ [razorpayOrphan payment]) (unmatchedCount + 1)
      else razorpayOrphanLoop matchedRazorpayIds rest matches unmatchedCount)"

fun easyecomOrphanLoop ::
  "string set \<Rightarrow> EasyecomOrder list \<Rightarrow> MatchResult list \<Rightarrow> nat
     \<Rightarrow> MatchResult list \<times> nat" where
  "easyecomOrphanLoop matchedEasyecomIds [] matches unmatchedCount =
     (matches, unmatchedCount)"
| "easyecomOrphanLoop matchedEasyecomIds (order # rest) matches unmatchedCount =
     (if eo_id order \<notin> matchedEasyecomIds
      then easyecomOrphanLoop matchedEasyecomIds rest
             (matches @ [easyecomOrphan order]) (unmatchedCount + 1)
      else easyecomOrphanLoop matchedEasyecomIds rest matches unmatchedCount)"

definition collectMatches ::
  "ShopifyOrder list \<Rightarrow> RazorpayPayment list \<Rightarrow> EasyecomOrder list
     \<Rightarrow> MatchResult list \<times> nat \<times> nat" where
  "collectMatches shopifyOrders razorpayPayments easyecomOrders =
     (let afterPrimary = primaryLoop shopifyOrders razorpayPayments easyecomOrders [] 0 0;
          matches1 = fst afterPrimary;
          matchedCount = fst (snd afterPrimary);
          unmatchedCount1 = snd (snd afterPrimary);
          matchedRazorpayIds = set (filterBoolean (map razorpayPaymentId matches1));
          afterRazorpay =
            razorpayOrphanLoop matchedRazorpayIds razorpayPayments matches1 unmatchedCount1;
          matches2 = fst afterRazorpay;
          unmatchedCount2 = snd afterRazorpay;
          matchedEasyecomIds = set (filterBoolean (map easyecomOrderId matches2));
          afterEasyecom =
            easyecomOrphanLoop matchedEasyecomIds easyecomOrders matches2 unmatchedCount2
      in (fst afterEasyecom, matchedCount, snd afterEasyecom))"

text \<open>
  The outcomes of the loop over the Shopify orders, and what it means for one of a list
  of outcomes to refer to a payment or to an Easyecom order.
\<close>

definition primaryOutcomes ::
  "ShopifyOrder list \<Rightarrow> RazorpayPayment list \<Rightarrow> EasyecomOrder list \<Rightarrow> MatchResult list" where
  "primaryOutcomes shopifyOrders razorpayPayments easyecomOrders =
     fst (primaryLoop shopifyOrders razorpayPayments easyecomOrders [] 0 0)"

definition referencesPayment :: "MatchResult list \<Rightarrow> RazorpayPayment \<Rightarrow> bool" where
  "referencesPayment outcomes payment =
     (\<exists>m\<in>set outcomes. razorpayPaymentId m = Some (rp_id payment))"

definition referencesEasyecom :: "MatchResult list \<Rightarrow> EasyecomOrder \<Rightarrow> bool" where
  "referencesEasyecom outcomes order =
     (\<exists>m\<in>set outcomes. easyecomOrderId m = Some (eo_id order))"

section \<open>The run: log entry, sync, load, save, finalise\<close>

text \<open>
  The two tables \<^verbatim>\<open>reconcile\<close> writes. A run-log row keeps the fields the run sets,
  the wall-clock stamps \<^verbatim>\<open>startTime\<close> and \<^verbatim>\<open>endTime\<close> apart; \<^verbatim>\<open>errors\<close> keeps the
  message of the error. A row's unique \<^verbatim>\<open>id\<close> is its position in the table.
\<close>

datatype js_error = Error string

datatype RunStatus = RUNNING | COMPLETED | FAILED

record ReconciliationLog =
  log_runId :: string
  log_status :: RunStatus
  recordsProcessed :: nat
  recordsMatched :: nat
  recordsUnmatched :: nat
  log_errors :: "string option"

record Database =
  reconciliationLog :: "ReconciliationLog list"
  reconciliation :: "MatchResult list"

text \<open>
  What the collaborators answer during one run: each call that can reject either gives
  its error or succeeds. \<^verbatim>\<open>syncError\<close> stands for the \<^verbatim>\<open>Promise.all\<close> of the three
  syncs, \<^verbatim>\<open>getLocal\<close> for the \<^verbatim>\<open>Promise.all\<close> of the three loads after them,
  \<^verbatim>\<open>reconciliationCreateError\<close> for \<^verbatim>\<open>prisma.reconciliation.create\<close> on the table as it
  is when the row arrives.
\<close>

record Collaborators =
  logCreateError :: "js_error option"
  syncError :: "int \<Rightarrow> int \<Rightarrow> js_error option"
  getLocal :: "int \<Rightarrow> int
     \<Rightarrow> js_error + (ShopifyOrder list \<times> RazorpayPayment list \<times> EasyecomOrder list)"
  reconciliationCreateError :: "MatchResult list \<Rightarrow> MatchResult \<Rightarrow> js_error option"
  logUpdateError :: "js_error option"
  logUpdateManyError :: "js_error option"

fun message :: "js_error \<Rightarrow> string" where
  "message (Error m) = m"

text \<open>The loop \<^verbatim>\<open>for (const match of matches) await this.saveReconciliation(match)\<close>.\<close>

fun saveLoop ::
  "(MatchResult list \<Rightarrow> MatchResult \<Rightarrow> js_error option) \<Rightarrow> MatchResult list
     \<Rightarrow> MatchResult list \<Rightarrow> js_error option \<times> MatchResult list" where
  "saveLoop createError [] table = (None, table)"
| "saveLoop createError (m # rest) table =
     (case createError table m of
        Some e \<Rightarrow> (Some e, table)
      | None \<Rightarrow> saveLoop createError rest (table @ [m]))"

text \<open>The \<^verbatim>\<open>catch\<close> block: \<^verbatim>\<open>updateMany\<close> on the rows of this run id, then rethrow.\<close>

definition markFailed :: "string \<Rightarrow> js_error \<Rightarrow> ReconciliationLog list \<Rightarrow> ReconciliationLog list" where
  "markFailed runId e logs =
     map (\<lambda>l. if log_runId l = runId
              then l\<lparr>log_status := FAILED, log_errors := Some (message e)\<rparr> else l) logs"

definition catchBlock ::
  "Collaborators \<Rightarrow> string \<Rightarrow> js_error \<Rightarrow> Database \<Rightarrow> (js_error + string) \<times> Database" where
  "catchBlock io runId e db =
     (case logUpdateManyError io of
        Some e' \<Rightarrow> (Inl e', db)
      | None \<Rightarrow> (Inl e, db\<lparr>reconciliationLog := markFailed runId e (reconciliationLog db)\<rparr>))"

definition updateAt :: "nat \<Rightarrow> ('a \<Rightarrow> 'a) \<Rightarrow> 'a list \<Rightarrow> 'a list" where
  "updateAt i f xs = (if i < length xs then xs[i := f (xs ! i)] else xs)"

text \<open>
  \<^verbatim>\<open>reconcile(startDate, endDate)\<close>. The run id \<^verbatim>\<open>RUN_<Date.now()>\<close> is given; the
  result is the returned run id (\<open>Inr\<close>) or the error thrown (\<open>Inl\<close>), with the database
  after the call.
\<close>

definition reconcile ::
  "Collaborators \<Rightarrow> string \<Rightarrow> int \<Rightarrow> int \<Rightarrow> Database \<Rightarrow> (js_error + string) \<times> Database" where
  "reconcile io runId startDate endDate db =
     (case logCreateError io of
        Some e \<Rightarrow> catchBlock io runId e db
      | None \<Rightarrow>
         (let logEntryId = length (reconciliationLog db);
              db1 = db\<lparr>reconciliationLog := reconciliationLog db @
                      [\<lparr> log_runId = runId, log_status = RUNNING, recordsProcessed = 0,
                         recordsMatched = 0, recordsUnmatched = 0, log_errors = None \<rparr>]\<rparr>
          in case syncError io startDate endDate of
               Some e \<Rightarrow> catchBlock io runId e db1
             | None \<Rightarrow>
                (case getLocal io startDate endDate of
                   Inl e \<Rightarrow> catchBlock io runId e db1
                 | Inr (shopifyOrders, razorpayPayments, easyecomOrders) \<Rightarrow>
                    (let collected = collectMatches shopifyOrders razorpayPayments easyecomOrders;
                         matches = fst collected;
                         matchedCount = fst (snd collected);
                         unmatchedCount = snd (snd collected);
                         saved = saveLoop (reconciliationCreateError io) matches
                                   (reconciliation db1);
                         db2 = db1\<lparr>reconciliation := snd saved\<rparr>
                     in case fst saved of
                          Some e \<Rightarrow> catchBlock io runId e db2
                        | None \<Rightarrow>
                           (case logUpdateError io of
                              Some e \<Rightarrow> catchBlock io runId e db2
                            | None \<Rightarrow>
                               (Inr runId,
                                db2\<lparr>reconciliationLog :=
                                  updateAt logEntryId
                                    (\<lambda>l. l\<lparr>log_status := COMPLETED,
                                            recordsProcessed := length matches,
                                            recordsMatched := matchedCount,
                                            recordsUnmatched := unmatchedCount\<rparr>)
                                    (reconciliationLog db2)\<rparr>))))))"

section \<open>Example records and collaborators\<close>

definition orderA :: ShopifyOrder where
  "orderA = \<lparr> so_id = ''so-a'', shopifyOrderId = ''1001'', shopifyOrderNumber = ''5001'',
              so_email = Some ''a@x.com'', totalPrice = 2000, so_createdAt = 0 \<rparr>"

definition orderB :: ShopifyOrder where
  "orderB = \<lparr> so_id = ''so-b'', shopifyOrderId = ''1002'', shopifyOrderNumber = ''5002'',
              so_email = Some ''a@x.com'', totalPrice = 2000, so_createdAt = 0 \<rparr>"

definition paymentNear :: RazorpayPayment where
  "paymentNear = \<lparr> rp_id = ''rp-1'', rp_email = Some ''a@x.com'', amount = 2010,
                   rp_createdAt = 0 \<rparr>"

definition paymentFar :: RazorpayPayment where
  "paymentFar = \<lparr> rp_id = ''rp-2'', rp_email = None, amount = 5000,
                  rp_createdAt = 90000000 \<rparr>"

definition easyecomNear :: EasyecomOrder where
  "easyecomNear = \<lparr> eo_id = ''eo-1'', marketplaceOrderId = Some ''1001'', totalAmount = 2000,
                    eo_createdAt = 0 \<rparr>"

definition easyecomFar :: EasyecomOrder where
  "easyecomFar = \<lparr> eo_id = ''eo-2'', marketplaceOrderId = None, totalAmount = 5000,
                   eo_createdAt = 180000000 \<rparr>"

text \<open>Collaborators that never reject and load the given records for every range.\<close>

definition okCollaborators ::
  "ShopifyOrder list \<times> RazorpayPayment list \<times> EasyecomOrder list \<Rightarrow> Collaborators" where
  "okCollaborators loaded =
     \<lparr> logCreateError = None,
       syncError = (\<lambda>s e. None),
       getLocal = (\<lambda>s e. Inr loaded),
       reconciliationCreateError = (\<lambda>table m. None),
       logUpdateError = None,
       logUpdateManyError = None \<rparr>"

text \<open>The same, with a store that rejects every insert after the first row.\<close>

definition secondInsertFails ::
  "ShopifyOrder list \<times> RazorpayPayment list \<times> EasyecomOrder list \<Rightarrow> Collaborators" where
  "secondInsertFails loaded =
     (okCollaborators loaded)
       \<lparr> reconciliationCreateError :=
           (\<lambda>table m. if table = [] then None else Some (Error ''insert failed'')) \<rparr>"

definition emptyDatabase :: Database where
  "emptyDatabase = \<lparr> reconciliationLog = [], reconciliation = [] \<rparr>"

section \<open>Properties of the selectors\<close>

lemma matchRazorpayLoop_le:
  "\<forall>p\<in>set ps. razorpayConfidence so p \<le> bc \<Longrightarrow> matchRazorpayLoop so ps bm bc = (bm, bc)"
  by (induction ps arbitrary: bm bc) auto

lemma matchEasyecomLoop_le:
  "\<forall>p\<in>set ps. easyecomConfidence so p \<le> bc \<Longrightarrow> matchEasyecomLoop so ps bm bc = (bm, bc)"
  by (induction ps arbitrary: bm bc) auto

text \<open>
  Claim C8. A selector returns no match and confidence 0 when its candidate list is
  empty or every candidate scores exactly 0, also when the list has a single candidate.
\<close>

theorem no_match_floor:
  "(razorpayPayments = [] \<or> (\<forall>p\<in>set razorpayPayments. razorpayConfidence so p = 0)
      \<longrightarrow> matchRazorpayPayment so razorpayPayments = (None, 0))
   \<and> (easyecomOrders = [] \<or> (\<forall>e\<in>set easyecomOrders. easyecomConfidence so e = 0)
      \<longrightarrow> matchEasyecomOrder so easyecomOrders = (None, 0))"
  unfolding matchRazorpayPayment_def matchEasyecomOrder_def
  by (auto intro!: matchRazorpayLoop_le matchEasyecomLoop_le)

lemma far_zero: "razorpayConfidence orderA paymentFar = 0"
  by (simp add: razorpayConfidence_def orderA_def paymentFar_def hoursDiff_def)

lemma far_zero_e: "easyecomConfidence orderA easyecomFar = 0"
  by (simp add: easyecomConfidence_def orderA_def easyecomFar_def hoursDiff_def)

theorem no_match_floor_witness:
  "razorpayConfidence orderA paymentFar = 0
   \<and> matchRazorpayPayment orderA [paymentFar] = (None, 0)
   \<and> easyecomConfidence orderA easyecomFar = 0
   \<and> matchEasyecomOrder orderA [easyecomFar] = (None, 0)"
  using no_match_floor [of "[paymentFar]" orderA "[easyecomFar]"] far_zero far_zero_e
  by simp

section \<open>Properties of the classifier\<close>

text \<open>
  Claim C2. The status of a primary outcome is decided by the cascade MATCHED,
  PARTIAL_MATCH, DISCREPANCY, UNMATCHED in that order, the first rule that applies
  winning; so an outcome with confidence at least 80 and amount difference at least 10
  is DISCREPANCY, not MATCHED.
\<close>

theorem classification_cascade:
  "\<exists>d. amountDifference (findMatches so ps es) = Some d
     \<and> status (findMatches so ps es) =
         (if matchConfidence (findMatches so ps es) \<ge> 80 \<and> d < 1 then MATCHED
          else if matchConfidence (findMatches so ps es) \<ge> 50 \<and> d < 10 then PARTIAL_MATCH
          else if d \<ge> 10 then DISCREPANCY
          else UNMATCHED)
     \<and> (matchConfidence (findMatches so ps es) \<ge> 80 \<and> d \<ge> 10
          \<longrightarrow> status (findMatches so ps es) = DISCREPANCY)"
  by (simp add: findMatches_def Let_def determineStatus_def)

lemma findMatches_example:
  "findMatches orderA [paymentNear] [] =
     \<lparr> mr_shopifyOrderId = Some ''so-a'', razorpayPaymentId = Some ''rp-1'',
       easyecomOrderId = None, matchConfidence = 100, status = DISCREPANCY,
       amountDifference = Some 10,
       discrepancyNotes = Some (SignificantAmountDifference 10) \<rparr>"
  by (simp add: findMatches_def Let_def determineStatus_def matchRazorpayPayment_def
      matchEasyecomOrder_def razorpayConfidence_def hoursDiff_def orderA_def paymentNear_def
      Math_max_def Math_min_def)

theorem classification_cascade_witness:
  "matchConfidence (findMatches orderA [paymentNear] []) \<ge> 80
   \<and> amountDifference (findMatches orderA [paymentNear] []) = Some 10
   \<and> status (findMatches orderA [paymentNear] []) = DISCREPANCY"
  using classification_cascade [of orderA "[paymentNear]" "[]"]
  by (simp add: findMatches_example)

text \<open>
  Claim C10. When neither selector finds a match for a Shopify order, its outcome is
  UNMATCHED with confidence 0, no payment id, no Easyecom id, and an amount difference
  that is present and equal to 0; it is never DISCREPANCY.
\<close>

theorem unmatched_primary:
  "fst (matchRazorpayPayment so ps) = None \<and> fst (matchEasyecomOrder so es) = None \<longrightarrow>
     status (findMatches so ps es) = UNMATCHED
   \<and> matchConfidence (findMatches so ps es) = 0
   \<and> razorpayPaymentId (findMatches so ps es) = None
   \<and> easyecomOrderId (findMatches so ps es) = None
   \<and> amountDifference (findMatches so ps es) = Some 0
   \<and> status (findMatches so ps es) \<noteq> DISCREPANCY"
  by (simp add: findMatches_def Let_def determineStatus_def Math_max_def Math_min_def)

theorem unmatched_primary_witness:
  "fst (matchRazorpayPayment orderA []) = None \<and> fst (matchEasyecomOrder orderA []) = None
   \<and> status (findMatches orderA [] []) = UNMATCHED
   \<and> matchConfidence (findMatches orderA [] []) = 0
   \<and> amountDifference (findMatches orderA [] []) = Some 0"
  using unmatched_primary [of orderA "[]" "[]"]
  by (simp add: matchRazorpayPayment_def matchEasyecomOrder_def)

section \<open>Properties of the run\<close>

lemma primaryLoop_eq:
  "primaryLoop sos ps es ms mc uc =
     (ms @ map (\<lambda>so. findMatches so ps es) sos,
      mc + length (filter (\<lambda>so. status (findMatches so ps es) = MATCHED) sos),
      uc + length (filter (\<lambda>so. status (findMatches so ps es) \<noteq> MATCHED) sos))"
  by (induction sos arbitrary: ms mc uc) auto

lemma razorpayOrphanLoop_eq:
  "razorpayOrphanLoop ids ps ms uc =
     (ms @ map razorpayOrphan (filter (\<lambda>p. rp_id p \<notin> ids) ps),
      uc + length (filter (\<lambda>p. rp_id p \<notin> ids) ps))"
  by (induction ps arbitrary: ms uc) auto

lemma easyecomOrphanLoop_eq:
  "easyecomOrphanLoop ids es ms uc =
     (ms @ map easyecomOrphan (filter (\<lambda>ord. eo_id ord \<notin> ids) es),
      uc + length (filter (\<lambda>ord. eo_id ord \<notin> ids) es))"
  by (induction es arbitrary: ms uc) auto

lemma set_filterBoolean: "set (filterBoolean xs) = {s. Some s \<in> set xs \<and> s \<noteq> []}"
  by (induction xs rule: filterBoolean.induct) auto

lemma primaryOutcomes_map:
  "primaryOutcomes sos ps es = map (\<lambda>so. findMatches so ps es) sos"
  by (simp add: primaryOutcomes_def primaryLoop_eq)

lemma claimed_easyecom_after_razorpay:
  "set (filterBoolean (map easyecomOrderId (ms @ map razorpayOrphan qs)))
     = set (filterBoolean (map easyecomOrderId ms))"
  by (auto simp: set_filterBoolean razorpayOrphan_def)

lemma collectMatches_eq:
  "collectMatches sos ps es =
     (primaryOutcomes sos ps es
        @ map razorpayOrphan (filter (\<lambda>p. rp_id p \<notin>
              set (filterBoolean (map razorpayPaymentId (primaryOutcomes sos ps es)))) ps)
        @ map easyecomOrphan (filter (\<lambda>ord. eo_id ord \<notin>
              set (filterBoolean (map easyecomOrderId (primaryOutcomes sos ps es)))) es),
      length (filter (\<lambda>m. status m = MATCHED) (primaryOutcomes sos ps es)),
      length (filter (\<lambda>m. status m \<noteq> MATCHED) (primaryOutcomes sos ps es))
        + length (filter (\<lambda>p. rp_id p \<notin>
              set (filterBoolean (map razorpayPaymentId (primaryOutcomes sos ps es)))) ps)
        + length (filter (\<lambda>ord. eo_id ord \<notin>
              set (filterBoolean (map easyecomOrderId (primaryOutcomes sos ps es)))) es))"
proof -
  let ?prim = "primaryOutcomes sos ps es"
  let ?rs = "filter (\<lambda>p. rp_id p \<notin> set (filterBoolean (map razorpayPaymentId ?prim))) ps"
  have p: "primaryLoop sos ps es [] 0 0 =
      (?prim, length (filter (\<lambda>m. status m = MATCHED) ?prim),
       length (filter (\<lambda>m. status m \<noteq> MATCHED) ?prim))"
    by (simp add: primaryOutcomes_def primaryLoop_eq filter_map comp_def)
  have c: "set (filterBoolean (map easyecomOrderId (?prim @ map razorpayOrphan ?rs)))
      = set (filterBoolean (map easyecomOrderId ?prim))"
    by (rule claimed_easyecom_after_razorpay)
  show ?thesis
    unfolding collectMatches_def Let_def p fst_conv snd_conv razorpayOrphanLoop_eq
      easyecomOrphanLoop_eq c
    by simp
qed

lemma claimed_payment_iff:
  "rp_id p \<noteq> [] \<Longrightarrow>
   rp_id p \<in> set (filterBoolean (map razorpayPaymentId ms)) \<longleftrightarrow> referencesPayment ms p"
  by (auto simp: set_filterBoolean referencesPayment_def intro: rev_image_eqI)

lemma claimed_easyecom_iff:
  "eo_id ord \<noteq> [] \<Longrightarrow>
   eo_id ord \<in> set (filterBoolean (map easyecomOrderId ms)) \<longleftrightarrow> referencesEasyecom ms ord"
  by (auto simp: set_filterBoolean referencesEasyecom_def intro: rev_image_eqI)

lemma unreferenced_payment_unclaimed:
  "\<not> referencesPayment ms p \<Longrightarrow> rp_id p \<notin> set (filterBoolean (map razorpayPaymentId ms))"
  by (auto simp: set_filterBoolean referencesPayment_def)

lemma unreferenced_easyecom_unclaimed:
  "\<not> referencesEasyecom ms ord \<Longrightarrow> eo_id ord \<notin> set (filterBoolean (map easyecomOrderId ms))"
  by (auto simp: set_filterBoolean referencesEasyecom_def)

lemma orphan_filters:
  assumes "\<forall>p\<in>set ps. rp_id p \<noteq> []" and "\<forall>ord\<in>set es. eo_id ord \<noteq> []"
  shows "filter (\<lambda>p. rp_id p \<notin> set (filterBoolean (map razorpayPaymentId ms))) ps
           = filter (\<lambda>p. \<not> referencesPayment ms p) ps"
    and "filter (\<lambda>ord. eo_id ord \<notin> set (filterBoolean (map easyecomOrderId ms))) es
           = filter (\<lambda>ord. \<not> referencesEasyecom ms ord) es"
  using assms by (auto intro!: filter_cong simp: claimed_payment_iff claimed_easyecom_iff)

lemma saveLoop_ok:
  "fst (saveLoop c ms t) = None \<Longrightarrow> snd (saveLoop c ms t) = t @ ms"
  by (induction ms arbitrary: t) (auto split: option.splits)

lemma catchBlock_Inl: "catchBlock io runId e db = (Inr r, db') \<Longrightarrow> False"
  by (simp add: catchBlock_def split: option.splits)

lemma catchBlock_reconciliation: "reconciliation (snd (catchBlock io runId e db)) = reconciliation db"
  by (simp add: catchBlock_def split: option.splits)

lemma reconcile_completed:
  assumes "reconcile io runId s e db = (Inr r, db')"
    and "getLocal io s e = Inr (sos, ps, es)"
  shows "r = runId"
    and "reconciliation db' = reconciliation db @ fst (collectMatches sos ps es)"
    and "reconciliationLog db' = reconciliationLog db @
           [\<lparr> log_runId = runId, log_status = COMPLETED,
              recordsProcessed = length (fst (collectMatches sos ps es)),
              recordsMatched = fst (snd (collectMatches sos ps es)),
              recordsUnmatched = snd (snd (collectMatches sos ps es)),
              log_errors = None \<rparr>]"
    and "logCreateError io = None" and "syncError io s e = None"
    and "fst (saveLoop (reconciliationCreateError io) (fst (collectMatches sos ps es)) (reconciliation db)) = None"
    and "logUpdateError io = None"
  using assms unfolding reconcile_def Let_def
  by (auto split: option.splits sum.splits simp: updateAt_def saveLoop_ok
      dest: catchBlock_Inl)

lemma saveLoop_never_fails:
  "\<forall>t m. c t m = None \<Longrightarrow> saveLoop c ms t = (None, t @ ms)"
  by (induction ms arbitrary: t) auto

lemma reconcile_succeeds:
  assumes "logCreateError io = None" and "syncError io s e = None"
    and "getLocal io s e = Inr (sos, ps, es)"
    and "\<forall>t m. reconciliationCreateError io t m = None"
    and "logUpdateError io = None"
  shows "reconcile io runId s e db =
     (Inr runId,
      \<lparr> reconciliationLog = reconciliationLog db @
           [\<lparr> log_runId = runId, log_status = COMPLETED,
              recordsProcessed = length (fst (collectMatches sos ps es)),
              recordsMatched = fst (snd (collectMatches sos ps es)),
              recordsUnmatched = snd (snd (collectMatches sos ps es)),
              log_errors = None \<rparr>],
        reconciliation = reconciliation db @ fst (collectMatches sos ps es) \<rparr>)"
  using assms unfolding reconcile_def Let_def
  by (simp add: saveLoop_never_fails updateAt_def)

lemma reconcile_ok:
  "reconcile (okCollaborators (sos, ps, es)) runId s e db =
     (Inr runId,
      \<lparr> reconciliationLog = reconciliationLog db @
           [\<lparr> log_runId = runId, log_status = COMPLETED,
              recordsProcessed = length (fst (collectMatches sos ps es)),
              recordsMatched = fst (snd (collectMatches sos ps es)),
              recordsUnmatched = snd (snd (collectMatches sos ps es)),
              log_errors = None \<rparr>],
        reconciliation = reconciliation db @ fst (collectMatches sos ps es) \<rparr>)"
  by (rule reconcile_succeeds) (simp_all add: okCollaborators_def)



lemma razorpayConfidence_A: "razorpayConfidence orderA paymentNear = 100"
  by (simp add: razorpayConfidence_def orderA_def paymentNear_def hoursDiff_def)

lemma razorpayConfidence_B: "razorpayConfidence orderB paymentNear = 100"
  by (simp add: razorpayConfidence_def orderB_def paymentNear_def hoursDiff_def)

lemma findMatches_B:
  "findMatches orderB [paymentNear] [] =
     \<lparr> mr_shopifyOrderId = Some ''so-b'', razorpayPaymentId = Some ''rp-1'',
       easyecomOrderId = None, matchConfidence = 100, status = DISCREPANCY,
       amountDifference = Some 10,
       discrepancyNotes = Some (SignificantAmountDifference 10) \<rparr>"
  by (simp add: findMatches_def Let_def determineStatus_def matchRazorpayPayment_def
      matchEasyecomOrder_def razorpayConfidence_B Math_max_def Math_min_def)
     (simp add: orderB_def paymentNear_def)

lemma rp_id_paymentNear: "rp_id paymentNear = ''rp-1''"
  by (simp add: paymentNear_def)

lemma collect_AB:
  "collectMatches [orderA, orderB] [paymentNear] [] =
     ([findMatches orderA [paymentNear] [], findMatches orderB [paymentNear] []], 0, 2)"
  by (simp add: collectMatches_eq primaryOutcomes_map findMatches_example findMatches_B rp_id_paymentNear)

lemma collect_A:
  "collectMatches [orderA] [paymentNear] [] = ([findMatches orderA [paymentNear] []], 0, 1)"
  by (simp add: collectMatches_eq primaryOutcomes_map findMatches_example rp_id_paymentNear)

lemma collect_orphans:
  "collectMatches [] [paymentNear, paymentFar] [easyecomFar] =
     ([razorpayOrphan paymentNear, razorpayOrphan paymentFar, easyecomOrphan easyecomFar], 0, 3)"
  by (simp add: collectMatches_eq primaryOutcomes_map)

text \<open>
  Claim C1 as the specification states it fails on the code: two Shopify orders that both
  score above 0 against the only payment both get its id; the order processed second is
  not given an absent match.
\<close>

theorem shared_secondary_counterexample:
  "0 < razorpayConfidence orderA paymentNear
   \<and> 0 < razorpayConfidence orderB paymentNear
   \<and> map mr_shopifyOrderId (fst (collectMatches [orderA, orderB] [paymentNear] []))
       = [Some ''so-a'', Some ''so-b'']
   \<and> map razorpayPaymentId (fst (collectMatches [orderA, orderB] [paymentNear] []))
       = [Some ''rp-1'', Some ''rp-1'']"
  by (simp add: collect_AB findMatches_example findMatches_B razorpayConfidence_A razorpayConfidence_B)

lemma matchRazorpay_single:
  "0 < razorpayConfidence so p \<Longrightarrow> matchRazorpayPayment so [p] = (Some p, razorpayConfidence so p)"
  by (simp add: matchRazorpayPayment_def)

lemma matchEasyecom_single:
  "0 < easyecomConfidence so ord \<Longrightarrow> matchEasyecomOrder so [ord] = (Some ord, easyecomConfidence so ord)"
  by (simp add: matchEasyecomOrder_def)

lemma razorpayPaymentId_findMatches:
  "razorpayPaymentId (findMatches so ps es) = map_option rp_id (fst (matchRazorpayPayment so ps))"
  by (simp add: findMatches_def Let_def)

lemma easyecomOrderId_findMatches:
  "easyecomOrderId (findMatches so ps es) = map_option eo_id (fst (matchEasyecomOrder so es))"
  by (simp add: findMatches_def Let_def)

lemma shopifyId_findMatches: "mr_shopifyOrderId (findMatches so ps es) = Some (so_id so)"
  by (simp add: findMatches_def Let_def)

lemma no_orphan_of_referenced_payment:
  assumes "rp_id p \<noteq> []" and "referencesPayment (primaryOutcomes sos ps es) p"
  shows "\<not> (\<exists>m\<in>set (fst (collectMatches sos ps es)).
            mr_shopifyOrderId m = None \<and> razorpayPaymentId m = Some (rp_id p))"
proof
  assume "\<exists>m\<in>set (fst (collectMatches sos ps es)).
            mr_shopifyOrderId m = None \<and> razorpayPaymentId m = Some (rp_id p)"
  then obtain m where m: "m \<in> set (fst (collectMatches sos ps es))"
    and s: "mr_shopifyOrderId m = None" and r: "razorpayPaymentId m = Some (rp_id p)"
    by blast
  from m consider
      (prim) "m \<in> set (primaryOutcomes sos ps es)"
    | (rorph) q where "q \<in> set ps"
        "rp_id q \<notin> set (filterBoolean (map razorpayPaymentId (primaryOutcomes sos ps es)))"
        "m = razorpayOrphan q"
    | (eorph) ord where "m = easyecomOrphan ord"
    by (auto simp: collectMatches_eq)
  then show False
  proof cases
    case prim
    with s show False by (auto simp: primaryOutcomes_map shopifyId_findMatches)
  next
    case (rorph q)
    with r have "rp_id q = rp_id p" by (simp add: razorpayOrphan_def)
    with rorph(2) assms show False by (simp add: claimed_payment_iff)
  next
    case (eorph ord)
    with r show False by (simp add: easyecomOrphan_def)
  qed
qed

lemma no_orphan_of_referenced_easyecom:
  assumes "eo_id ord \<noteq> []" and "referencesEasyecom (primaryOutcomes sos ps es) ord"
  shows "\<not> (\<exists>m\<in>set (fst (collectMatches sos ps es)).
            mr_shopifyOrderId m = None \<and> easyecomOrderId m = Some (eo_id ord))"
proof
  assume "\<exists>m\<in>set (fst (collectMatches sos ps es)).
            mr_shopifyOrderId m = None \<and> easyecomOrderId m = Some (eo_id ord)"
  then obtain m where m: "m \<in> set (fst (collectMatches sos ps es))"
    and s: "mr_shopifyOrderId m = None" and r: "easyecomOrderId m = Some (eo_id ord)"
    by blast
  from m consider
      (prim) "m \<in> set (primaryOutcomes sos ps es)"
    | (rorph) q where "m = razorpayOrphan q"
    | (eorph) q where "q \<in> set es"
        "eo_id q \<notin> set (filterBoolean (map easyecomOrderId (primaryOutcomes sos ps es)))"
        "m = easyecomOrphan q"
    by (auto simp: collectMatches_eq)
  then show False
  proof cases
    case prim
    with s show False by (auto simp: primaryOutcomes_map shopifyId_findMatches)
  next
    case (rorph q)
    with r show False by (simp add: razorpayOrphan_def)
  next
    case (eorph q)
    with r have "eo_id q = eo_id ord" by (simp add: easyecomOrphan_def)
    with eorph(2) assms show False by (simp add: claimed_easyecom_iff)
  qed
qed

text \<open>
  Claim C1, amended. Payments and Easyecom orders are not claimed exclusively: every
  Shopify order is matched against the full lists, whatever the orders before it were
  matched with. When an order scores above 0 against the single record of a secondary
  source, its outcome refers to that record's id, whether it is processed first or
  later. A secondary record with a non-empty id that some primary outcome refers to does
  not appear as an orphan outcome.
\<close>

theorem no_exclusive_claiming:
  "primaryOutcomes sos ps es = map (\<lambda>so. findMatches so ps es) sos
   \<and> (0 < razorpayConfidence so p \<longrightarrow>
        razorpayPaymentId (findMatches so [p] es) = Some (rp_id p))
   \<and> (0 < easyecomConfidence so ord \<longrightarrow>
        easyecomOrderId (findMatches so ps [ord]) = Some (eo_id ord))
   \<and> (rp_id p \<noteq> [] \<and> referencesPayment (primaryOutcomes sos ps es) p \<longrightarrow>
        \<not> (\<exists>m\<in>set (fst (collectMatches sos ps es)).
              mr_shopifyOrderId m = None \<and> razorpayPaymentId m = Some (rp_id p)))
   \<and> (eo_id ord \<noteq> [] \<and> referencesEasyecom (primaryOutcomes sos ps es) ord \<longrightarrow>
        \<not> (\<exists>m\<in>set (fst (collectMatches sos ps es)).
              mr_shopifyOrderId m = None \<and> easyecomOrderId m = Some (eo_id ord)))"
  using no_orphan_of_referenced_payment[of p sos ps es]
    no_orphan_of_referenced_easyecom[of ord sos ps es]
  by (simp add: primaryOutcomes_map razorpayPaymentId_findMatches easyecomOrderId_findMatches
      matchRazorpay_single matchEasyecom_single)

theorem no_exclusive_claiming_witness:
  "0 < razorpayConfidence orderB paymentNear
   \<and> razorpayPaymentId (findMatches orderA [paymentNear] []) = Some ''rp-1''
   \<and> razorpayPaymentId (findMatches orderB [paymentNear] []) = Some ''rp-1''
   \<and> referencesPayment (primaryOutcomes [orderA, orderB] [paymentNear] []) paymentNear
   \<and> \<not> (\<exists>m\<in>set (fst (collectMatches [orderA, orderB] [paymentNear] [])).
            mr_shopifyOrderId m = None \<and> razorpayPaymentId m = Some (rp_id paymentNear))"
  using no_exclusive_claiming [of "[orderA, orderB]" "[paymentNear]" "[]" orderB paymentNear
      easyecomNear]
  by (simp add: razorpayConfidence_B findMatches_example findMatches_B referencesPayment_def
      rp_id_paymentNear)

text \<open>
  Claim C3 as the specification states it fails on the code: a completed run whose only
  outcome is DISCREPANCY records 1 in \<^verbatim>\<open>recordsUnmatched\<close>, although no outcome is
  UNMATCHED.
\<close>

theorem run_summary_counterexample:
  "fst (reconcile (okCollaborators ([orderA], [paymentNear], [])) ''RUN_1'' 0 1 emptyDatabase)
     = Inr ''RUN_1''
   \<and> map status (reconciliation
         (snd (reconcile (okCollaborators ([orderA], [paymentNear], [])) ''RUN_1'' 0 1
                emptyDatabase))) = [DISCREPANCY]
   \<and> map recordsUnmatched (reconciliationLog
         (snd (reconcile (okCollaborators ([orderA], [paymentNear], [])) ''RUN_1'' 0 1
                emptyDatabase))) = [1]"
  by (simp add: reconcile_ok collect_A findMatches_example emptyDatabase_def)

lemma status_razorpayOrphan: "status (razorpayOrphan p) = UNMATCHED"
  by (simp add: razorpayOrphan_def)

lemma status_easyecomOrphan: "status (easyecomOrphan ord) = UNMATCHED"
  by (simp add: easyecomOrphan_def)

lemma count_matched:
  "fst (snd (collectMatches sos ps es))
     = length (filter (\<lambda>m. status m = MATCHED) (fst (collectMatches sos ps es)))"
  by (simp add: collectMatches_eq filter_map comp_def status_razorpayOrphan
      status_easyecomOrphan)

lemma count_unmatched:
  "snd (snd (collectMatches sos ps es))
     = length (filter (\<lambda>m. status m \<noteq> MATCHED) (fst (collectMatches sos ps es)))"
  by (simp add: collectMatches_eq filter_map comp_def status_razorpayOrphan
      status_easyecomOrphan)

lemma length_collect:
  "length (fst (collectMatches sos ps es))
     = fst (snd (collectMatches sos ps es)) + snd (snd (collectMatches sos ps es))"
  unfolding count_matched count_unmatched
  by (rule sum_length_filter_compl [symmetric])

text \<open>
  Claim C3, amended. After a completed run the run-log entry records in
  \<^verbatim>\<open>recordsMatched\<close> the number of outcomes with status MATCHED and in
  \<^verbatim>\<open>recordsUnmatched\<close> the number of all other outcomes, PARTIAL_MATCH and DISCREPANCY
  included; the two counters add up to \<^verbatim>\<open>recordsProcessed\<close>.
\<close>

theorem run_summary:
  "reconcile io runId startDate endDate db = (Inr r, db')
   \<and> getLocal io startDate endDate = Inr (sos, ps, es) \<longrightarrow>
     (\<exists>entry. reconciliationLog db' = reconciliationLog db @ [entry]
        \<and> reconciliation db' = reconciliation db @ fst (collectMatches sos ps es)
        \<and> recordsMatched entry
            = length (filter (\<lambda>m. status m = MATCHED) (fst (collectMatches sos ps es)))
        \<and> recordsUnmatched entry
            = length (filter (\<lambda>m. status m \<noteq> MATCHED) (fst (collectMatches sos ps es)))
        \<and> recordsProcessed entry = recordsMatched entry + recordsUnmatched entry)"
proof (intro impI, elim conjE)
  assume run: "reconcile io runId startDate endDate db = (Inr r, db')"
    and loaded: "getLocal io startDate endDate = Inr (sos, ps, es)"
  note fin = reconcile_completed(2,3) [OF run loaded]
  show "\<exists>entry. reconciliationLog db' = reconciliationLog db @ [entry]
        \<and> reconciliation db' = reconciliation db @ fst (collectMatches sos ps es)
        \<and> recordsMatched entry
            = length (filter (\<lambda>m. status m = MATCHED) (fst (collectMatches sos ps es)))
        \<and> recordsUnmatched entry
            = length (filter (\<lambda>m. status m \<noteq> MATCHED) (fst (collectMatches sos ps es)))
        \<and> recordsProcessed entry = recordsMatched entry + recordsUnmatched entry"
    using fin count_matched [of sos ps es] count_unmatched [of sos ps es]
      length_collect [of sos ps es]
    by simp
qed

lemma okCollaborators_fields:
  "logCreateError (okCollaborators loaded) = None"
  "syncError (okCollaborators loaded) s e = None"
  "getLocal (okCollaborators loaded) s e = Inr loaded"
  "reconciliationCreateError (okCollaborators loaded) t m = None"
  "logUpdateError (okCollaborators loaded) = None"
  by (simp_all add: okCollaborators_def)

theorem run_summary_witness:
  "reconcile (okCollaborators ([orderA], [paymentNear], [])) ''RUN_1'' 0 1 emptyDatabase
     = (Inr ''RUN_1'',
        snd (reconcile (okCollaborators ([orderA], [paymentNear], [])) ''RUN_1'' 0 1
               emptyDatabase))
   \<and> getLocal (okCollaborators ([orderA], [paymentNear], [])) 0 1
       = Inr ([orderA], [paymentNear], [])
   \<and> (\<exists>entry. reconciliationLog
          (snd (reconcile (okCollaborators ([orderA], [paymentNear], [])) ''RUN_1'' 0 1
                  emptyDatabase)) = [entry]
        \<and> recordsMatched entry = 0 \<and> recordsUnmatched entry = 1
        \<and> recordsProcessed entry = 1)"
proof -
  let ?io = "okCollaborators ([orderA], [paymentNear], [])"
  have h: "reconcile ?io ''RUN_1'' 0 1 emptyDatabase
             = (Inr ''RUN_1'', snd (reconcile ?io ''RUN_1'' 0 1 emptyDatabase))
           \<and> getLocal ?io 0 1 = Inr ([orderA], [paymentNear], [])"
    by (simp add: reconcile_ok okCollaborators_fields)
  from run_summary [of ?io "''RUN_1''" 0 1 emptyDatabase "''RUN_1''"
      "snd (reconcile ?io ''RUN_1'' 0 1 emptyDatabase)" "[orderA]" "[paymentNear]" "[]"] h
  show ?thesis
    by (auto simp: collect_A findMatches_example emptyDatabase_def)
qed





lemma collect_two_orphans:
  "collectMatches [] [paymentNear, paymentFar] [] =
     ([razorpayOrphan paymentNear, razorpayOrphan paymentFar], 0, 2)"
  by (simp add: collectMatches_eq primaryOutcomes_map)

text \<open>
  Claim C5 on the code: a run of two outcomes whose second insert is rejected ends FAILED
  and rethrows the error, and the first outcome stays in the reconciliation table.
\<close>

theorem failed_run_keeps_saved_outcomes:
  "reconcile (secondInsertFails ([], [paymentNear, paymentFar], [])) ''RUN_1'' 0 1 emptyDatabase
     = (Inl (Error ''insert failed''),
        \<lparr> reconciliationLog =
            [\<lparr> log_runId = ''RUN_1'', log_status = FAILED, recordsProcessed = 0,
               recordsMatched = 0, recordsUnmatched = 0,
               log_errors = Some ''insert failed'' \<rparr>],
          reconciliation = [razorpayOrphan paymentNear] \<rparr>)"
  by (simp add: reconcile_def Let_def secondInsertFails_def okCollaborators_def
      collect_two_orphans emptyDatabase_def catchBlock_def markFailed_def)

text \<open>
  Claim C6. A completed run over the loaded Shopify orders, payments and Easyecom orders
  (the ids of the secondary records being non-empty strings) saves, and records as
  processed, as many outcomes as there are Shopify orders, plus the payments no primary
  outcome refers to, plus the Easyecom orders no primary outcome refers to.
\<close>

theorem conservation:
  "reconcile io runId startDate endDate db = (Inr r, db')
   \<and> getLocal io startDate endDate = Inr (sos, ps, es)
   \<and> (\<forall>p\<in>set ps. rp_id p \<noteq> []) \<and> (\<forall>ord\<in>set es. eo_id ord \<noteq> []) \<longrightarrow>
     reconciliation db' = reconciliation db @ fst (collectMatches sos ps es)
     \<and> length (fst (collectMatches sos ps es))
         = length sos
           + length (filter (\<lambda>p. \<not> referencesPayment (primaryOutcomes sos ps es) p) ps)
           + length (filter (\<lambda>ord. \<not> referencesEasyecom (primaryOutcomes sos ps es) ord) es)
     \<and> (\<exists>entry. reconciliationLog db' = reconciliationLog db @ [entry]
          \<and> log_status entry = COMPLETED
          \<and> recordsProcessed entry = length (fst (collectMatches sos ps es)))"
proof (intro impI, elim conjE)
  assume run: "reconcile io runId startDate endDate db = (Inr r, db')"
    and loaded: "getLocal io startDate endDate = Inr (sos, ps, es)"
    and ids: "\<forall>p\<in>set ps. rp_id p \<noteq> []" "\<forall>ord\<in>set es. eo_id ord \<noteq> []"
  note fin = reconcile_completed(2,3) [OF run loaded]
  have len: "length (fst (collectMatches sos ps es))
         = length sos
           + length (filter (\<lambda>p. \<not> referencesPayment (primaryOutcomes sos ps es) p) ps)
           + length (filter (\<lambda>ord. \<not> referencesEasyecom (primaryOutcomes sos ps es) ord) es)"
    unfolding collectMatches_eq fst_conv orphan_filters [OF ids]
    by (simp add: primaryOutcomes_map)
  from fin len
  show "reconciliation db' = reconciliation db @ fst (collectMatches sos ps es)
     \<and> length (fst (collectMatches sos ps es))
         = length sos
           + length (filter (\<lambda>p. \<not> referencesPayment (primaryOutcomes sos ps es) p) ps)
           + length (filter (\<lambda>ord. \<not> referencesEasyecom (primaryOutcomes sos ps es) ord) es)
     \<and> (\<exists>entry. reconciliationLog db' = reconciliationLog db @ [entry]
          \<and> log_status entry = COMPLETED
          \<and> recordsProcessed entry = length (fst (collectMatches sos ps es)))"
    by simp
qed

lemma findMatches_A_three:
  "findMatches orderA [paymentNear, paymentFar] [easyecomFar] = findMatches orderA [paymentNear] []"
  by (simp add: findMatches_def matchRazorpayPayment_def matchEasyecomOrder_def
      razorpayConfidence_A far_zero far_zero_e)

lemma example_ids:
  "rp_id paymentFar = ''rp-2''" "eo_id easyecomFar = ''eo-2''"
  by (simp_all add: paymentFar_def easyecomFar_def)

lemma collect_three:
  "collectMatches [orderA] [paymentNear, paymentFar] [easyecomFar] =
     ([findMatches orderA [paymentNear] [], razorpayOrphan paymentFar,
       easyecomOrphan easyecomFar], 0, 3)"
  by (simp add: collectMatches_eq primaryOutcomes_map findMatches_A_three findMatches_example
      rp_id_paymentNear example_ids)

theorem conservation_witness:
  "rp_id paymentNear \<noteq> [] \<and> rp_id paymentFar \<noteq> [] \<and> eo_id easyecomFar \<noteq> []
   \<and> fst (reconcile (okCollaborators ([orderA], [paymentNear, paymentFar], [easyecomFar]))
            ''RUN_1'' 0 1 emptyDatabase) = Inr ''RUN_1''
   \<and> length (reconciliation
         (snd (reconcile (okCollaborators ([orderA], [paymentNear, paymentFar], [easyecomFar]))
                ''RUN_1'' 0 1 emptyDatabase))) = 3
   \<and> length [orderA] = 1
   \<and> length (filter (\<lambda>p. \<not> referencesPayment
                 (primaryOutcomes [orderA] [paymentNear, paymentFar] [easyecomFar]) p)
               [paymentNear, paymentFar]) = 1
   \<and> length (filter (\<lambda>ord. \<not> referencesEasyecom
                 (primaryOutcomes [orderA] [paymentNear, paymentFar] [easyecomFar]) ord)
               [easyecomFar]) = 1
   \<and> map recordsProcessed (reconciliationLog
         (snd (reconcile (okCollaborators ([orderA], [paymentNear, paymentFar], [easyecomFar]))
                ''RUN_1'' 0 1 emptyDatabase))) = [3]"
proof -
  let ?io = "okCollaborators ([orderA], [paymentNear, paymentFar], [easyecomFar])"
  let ?db' = "snd (reconcile ?io ''RUN_1'' 0 1 emptyDatabase)"
  have h: "reconcile ?io ''RUN_1'' 0 1 emptyDatabase = (Inr ''RUN_1'', ?db')
           \<and> getLocal ?io 0 1 = Inr ([orderA], [paymentNear, paymentFar], [easyecomFar])
           \<and> (\<forall>p\<in>set [paymentNear, paymentFar]. rp_id p \<noteq> [])
           \<and> (\<forall>ord\<in>set [easyecomFar]. eo_id ord \<noteq> [])"
    by (simp add: reconcile_ok okCollaborators_fields rp_id_paymentNear example_ids)
  have refs: "referencesPayment [findMatches orderA [paymentNear] []] paymentNear"
    "\<not> referencesPayment [findMatches orderA [paymentNear] []] paymentFar"
    "\<not> referencesEasyecom [findMatches orderA [paymentNear] []] easyecomFar"
    by (simp_all add: referencesPayment_def referencesEasyecom_def findMatches_example
        rp_id_paymentNear example_ids)
  from conservation [of ?io "''RUN_1''" 0 1 emptyDatabase "''RUN_1''" ?db'
      "[orderA]" "[paymentNear, paymentFar]" "[easyecomFar]"] h
  show ?thesis
    by (simp add: primaryOutcomes_map findMatches_A_three refs collect_three
        emptyDatabase_def rp_id_paymentNear example_ids reconcile_ok)
qed

lemma collect_far:
  "collectMatches [] [paymentFar] [easyecomFar]
     = ([razorpayOrphan paymentFar, easyecomOrphan easyecomFar], 0, 2)"
  by (simp add: collectMatches_eq primaryOutcomes_map)

text \<open>
  Claim C9 as the specification states it fails on the code: the orphan outcome of a
  payment and the orphan outcome of an Easyecom order carry the same note, which names
  neither source.
\<close>

theorem orphan_note_counterexample:
  "fst (collectMatches [] [paymentFar] [easyecomFar])
     = [razorpayOrphan paymentFar, easyecomOrphan easyecomFar]
   \<and> discrepancyNotes (razorpayOrphan paymentFar)
       = Some (Literal ''No matching Shopify order found'')
   \<and> discrepancyNotes (easyecomOrphan easyecomFar)
       = Some (Literal ''No matching Shopify order found'')"
  by (simp add: collect_far razorpayOrphan_def easyecomOrphan_def)

text \<open>
  Claim C9, amended. After the outcomes of the Shopify orders come one orphan outcome for
  each payment that no primary outcome refers to and then one for each such Easyecom
  order, and no others (ids being non-empty strings). An orphan outcome has status
  UNMATCHED, confidence 0, no amount difference, the record's id in the field of its
  source, and the fixed note \<^verbatim>\<open>No matching Shopify order found\<close>, the same for both
  sources.
\<close>

theorem orphan_outcomes:
  "((\<forall>q\<in>set ps. rp_id q \<noteq> []) \<and> (\<forall>q\<in>set es. eo_id q \<noteq> []) \<longrightarrow>
      fst (collectMatches sos ps es)
        = primaryOutcomes sos ps es
          @ map razorpayOrphan
              (filter (\<lambda>q. \<not> referencesPayment (primaryOutcomes sos ps es) q) ps)
          @ map easyecomOrphan
              (filter (\<lambda>q. \<not> referencesEasyecom (primaryOutcomes sos ps es) q) es))
   \<and> (p \<in> set ps \<and> \<not> referencesPayment (primaryOutcomes sos ps es) p \<longrightarrow>
        razorpayOrphan p \<in> set (fst (collectMatches sos ps es)))
   \<and> (ord \<in> set es \<and> \<not> referencesEasyecom (primaryOutcomes sos ps es) ord \<longrightarrow>
        easyecomOrphan ord \<in> set (fst (collectMatches sos ps es)))
   \<and> razorpayOrphan p =
        \<lparr> mr_shopifyOrderId = None, razorpayPaymentId = Some (rp_id p),
          easyecomOrderId = None, matchConfidence = 0, status = UNMATCHED,
          amountDifference = None,
          discrepancyNotes = Some (Literal ''No matching Shopify order found'') \<rparr>
   \<and> easyecomOrphan ord =
        \<lparr> mr_shopifyOrderId = None, razorpayPaymentId = None,
          easyecomOrderId = Some (eo_id ord), matchConfidence = 0, status = UNMATCHED,
          amountDifference = None,
          discrepancyNotes = Some (Literal ''No matching Shopify order found'') \<rparr>"
proof -
  have a: "fst (collectMatches sos ps es)
        = primaryOutcomes sos ps es
          @ map razorpayOrphan
              (filter (\<lambda>q. \<not> referencesPayment (primaryOutcomes sos ps es) q) ps)
          @ map easyecomOrphan
              (filter (\<lambda>q. \<not> referencesEasyecom (primaryOutcomes sos ps es) q) es)"
    if "\<forall>q\<in>set ps. rp_id q \<noteq> []" "\<forall>q\<in>set es. eo_id q \<noteq> []"
    unfolding collectMatches_eq fst_conv orphan_filters [OF that] by (rule refl)
  have b: "razorpayOrphan p \<in> set (fst (collectMatches sos ps es))"
    if "p \<in> set ps" "\<not> referencesPayment (primaryOutcomes sos ps es) p"
    using that unreferenced_payment_unclaimed [OF that(2)]
    by (simp add: collectMatches_eq)
  have c: "easyecomOrphan ord \<in> set (fst (collectMatches sos ps es))"
    if "ord \<in> set es" "\<not> referencesEasyecom (primaryOutcomes sos ps es) ord"
    using that unreferenced_easyecom_unclaimed [OF that(2)]
    by (simp add: collectMatches_eq)
  from a b c show ?thesis
    by (simp add: razorpayOrphan_def easyecomOrphan_def)
qed

theorem orphan_outcomes_witness:
  "rp_id paymentNear \<noteq> [] \<and> rp_id paymentFar \<noteq> [] \<and> eo_id easyecomFar \<noteq> []
   \<and> \<not> referencesPayment (primaryOutcomes [orderA] [paymentNear, paymentFar] [easyecomFar])
         paymentFar
   \<and> \<not> referencesEasyecom (primaryOutcomes [orderA] [paymentNear, paymentFar] [easyecomFar])
         easyecomFar
   \<and> fst (collectMatches [orderA] [paymentNear, paymentFar] [easyecomFar])
       = [findMatches orderA [paymentNear] [], razorpayOrphan paymentFar,
          easyecomOrphan easyecomFar]
   \<and> razorpayOrphan paymentFar \<in>
       set (fst (collectMatches [orderA] [paymentNear, paymentFar] [easyecomFar]))
   \<and> easyecomOrphan easyecomFar \<in>
       set (fst (collectMatches [orderA] [paymentNear, paymentFar] [easyecomFar]))"
proof -
  have refs: "referencesPayment [findMatches orderA [paymentNear] []] paymentNear"
    "\<not> referencesPayment [findMatches orderA [paymentNear] []] paymentFar"
    "\<not> referencesEasyecom [findMatches orderA [paymentNear] []] easyecomFar"
    by (simp_all add: referencesPayment_def referencesEasyecom_def findMatches_example
        rp_id_paymentNear example_ids)
  from orphan_outcomes [of "[paymentNear, paymentFar]" "[easyecomFar]" "[orderA]"
      paymentFar easyecomFar]
  show ?thesis
    by (simp add: primaryOutcomes_map findMatches_A_three refs rp_id_paymentNear example_ids)
qed

end
